theory Spec2Isabelle
  imports Complex_Main "HOL-Library.Sublist"
begin

section \<open>JavaScript values\<close>

text \<open>
  The values that travel through \<open>src/index.ts\<close>: decoded JSON (tool arguments, response
  bodies) and \<open>undefined\<close>, which a read of a missing property yields and which the
  validators store in optional fields. Every finite double is a rational, and \<open>NaN\<close> and
  the infinities do not occur in JSON; \<open>-0\<close> and \<open>0\<close> are both falsy. An object is the list
  of its properties in insertion order, with distinct keys.
\<close>

datatype jsval =
    JUndefined
  | JNull
  | JBool bool
  | JNum rat
  | JStr string
  | JArr "jsval list"
  | JObj "(string \<times> jsval) list"

datatype js_type = T_undefined | T_object | T_boolean | T_number | T_string

text \<open>The \<open>typeof\<close> operator: \<open>null\<close> and arrays are \<open>'object'\<close>.\<close>

fun typeof :: "jsval \<Rightarrow> js_type" where
  "typeof JUndefined = T_undefined"
| "typeof JNull = T_object"
| "typeof (JBool b) = T_boolean"
| "typeof (JNum r) = T_number"
| "typeof (JStr s) = T_string"
| "typeof (JArr xs) = T_object"
| "typeof (JObj kvs) = T_object"

text \<open>Truthiness, as \<open>!v\<close>, \<open>v || d\<close>, \<open>if (v)\<close> and \<open>v ? a : b\<close> read it.\<close>

fun truthy :: "jsval \<Rightarrow> bool" where
  "truthy JUndefined = False"
| "truthy JNull = False"
| "truthy (JBool b) = b"
| "truthy (JNum r) = (r \<noteq> 0)"
| "truthy (JStr s) = (s \<noteq> [])"
| "truthy (JArr xs) = True"
| "truthy (JObj kvs) = True"

fun isArray :: "jsval \<Rightarrow> bool" where
  "isArray (JArr xs) = True"
| "isArray v = False"

text \<open>\<open>a || b\<close>.\<close>

definition js_or :: "jsval \<Rightarrow> jsval \<Rightarrow> jsval" where
  "js_or a b = (if truthy a then a else b)"

text \<open>
  \<open>v?.k\<close>: the property \<open>k\<close> of \<open>v\<close>, \<open>undefined\<close> when \<open>v\<close> is \<open>null\<close> or \<open>undefined\<close>, when
  \<open>v\<close> is an object without the key, and when \<open>v\<close> is a primitive or an array and \<open>k\<close> is
  not one of their built-in properties (the only key read this way is \<open>message\<close>).
\<close>

fun opt_prop :: "jsval \<Rightarrow> string \<Rightarrow> jsval" where
  "opt_prop (JObj kvs) k = (case map_of kvs k of None \<Rightarrow> JUndefined | Some v \<Rightarrow> v)"
| "opt_prop v k = JUndefined"

subsection \<open>Errors\<close>

datatype ErrorCode = InvalidParams | MethodNotFound | InternalError

record axios_response =
  status :: int
  data :: jsval

text \<open>
  What the code can throw: \<open>McpError(code, message)\<close>, an \<open>AxiosError\<close> with its \<open>message\<close>
  and optional \<open>response\<close>, and the runtime's \<open>TypeError\<close>.
\<close>

datatype exn =
    McpError ErrorCode string
  | AxiosError string "axios_response option"
  | TypeError string

subsection \<open>Strings\<close>

fun join_strings :: "string \<Rightarrow> string list \<Rightarrow> string" where
  "join_strings sep [] = []"
| "join_strings sep [x] = x"
| "join_strings sep (x # y # ys) = x @ sep @ join_strings sep (y # ys)"

text \<open>
  The string conversion of template literals and of \<open>Array.prototype.join\<close>. An array
  converts as its \<open>join(',')\<close>, which turns \<open>null\<close> and \<open>undefined\<close> elements into the
  empty string and converts the others in order. An object converts through its
  \<open>toString\<close> property: the inherited one gives \<open>[object Object]\<close>; an own property
  \<open>toString\<close> of a decoded object is never callable, \<open>valueOf\<close> then yields no primitive,
  and the conversion raises a \<open>TypeError\<close>. The decimal form of a number is the runtime's
  and is a parameter.
\<close>

fun js_String :: "(rat \<Rightarrow> string) \<Rightarrow> jsval \<Rightarrow> exn + string"
  and js_join :: "(rat \<Rightarrow> string) \<Rightarrow> string \<Rightarrow> jsval list \<Rightarrow> exn + string" where
  "js_String nts JUndefined = Inr ''undefined''"
| "js_String nts JNull = Inr ''null''"
| "js_String nts (JBool b) = Inr (if b then ''true'' else ''false'')"
| "js_String nts (JNum r) = Inr (nts r)"
| "js_String nts (JStr s) = Inr s"
| "js_String nts (JArr xs) = js_join nts '','' xs"
| "js_String nts (JObj kvs) =
     (if ''toString'' \<in> set (map fst kvs)
      then Inl (TypeError ''Cannot convert object to primitive value'')
      else Inr ''[object Object]'')"
| "js_join nts sep [] = Inr []"
| "js_join nts sep [x] =
     (if x = JUndefined \<or> x = JNull then Inr [] else js_String nts x)"
| "js_join nts sep (x # y # ys) =
     (case (if x = JUndefined \<or> x = JNull then Inr [] else js_String nts x) of
        Inl error \<Rightarrow> Inl error
      | Inr s \<Rightarrow>
          (case js_join nts sep (y # ys) of
             Inl error \<Rightarrow> Inl error
           | Inr r \<Rightarrow> Inr (s @ sep @ r)))"

text \<open>\<open>xs.join(sep)\<close> on an array.\<close>

definition array_join :: "(rat \<Rightarrow> string) \<Rightarrow> jsval list \<Rightarrow> string \<Rightarrow> exn + string" where
  "array_join nts xs sep = js_join nts sep xs"

text \<open>The characters of a value that \<open>typeof\<close> has shown to be a string.\<close>

fun string_of :: "jsval \<Rightarrow> string" where
  "string_of (JStr s) = s"
| "string_of v = []"

text \<open>\<open>s.includes(pat)\<close>: \<open>pat\<close> occurs in \<open>s\<close> as a contiguous run.\<close>

fun str_includes :: "string \<Rightarrow> string \<Rightarrow> bool" where
  "str_includes [] pat = (pat = [])"
| "str_includes (c # s) pat = (prefix pat (c # s) \<or> str_includes s pat)"

text \<open>
  What a request body becomes on the wire: axios sends a plain object as
  \<open>JSON.stringify\<close> of it, which leaves out every property whose value is \<open>undefined\<close>
  and writes \<open>null\<close> for an \<open>undefined\<close> array element.
\<close>

fun JSON_body :: "jsval \<Rightarrow> jsval"
  and JSON_props :: "(string \<times> jsval) list \<Rightarrow> (string \<times> jsval) list"
  and JSON_items :: "jsval list \<Rightarrow> jsval list" where
  "JSON_body (JObj kvs) = JObj (JSON_props kvs)"
| "JSON_body (JArr xs) = JArr (JSON_items xs)"
| "JSON_body JUndefined = JUndefined"
| "JSON_body JNull = JNull"
| "JSON_body (JBool b) = JBool b"
| "JSON_body (JNum r) = JNum r"
| "JSON_body (JStr s) = JStr s"
| "JSON_props [] = []"
| "JSON_props ((k, v) # kvs) =
     (if v = JUndefined then JSON_props kvs else (k, JSON_body v) # JSON_props kvs)"
| "JSON_items [] = []"
| "JSON_items (x # xs) = (if x = JUndefined then JNull else JSON_body x) # JSON_items xs"

section \<open>Requests and results\<close>

datatype http_method = GET | POST | PATCH | DELETE

text \<open>
  One call of \<open>this.axiosInstance\<close>: the method, the path, the \<open>params\<close> object of the
  config (list only) and the data argument, \<open>None\<close> where the call passes none.
\<close>

record http_request =
  rq_method :: http_method
  rq_url :: string
  rq_params :: "jsval option"
  rq_data :: "jsval option"

text \<open>
  The surroundings of the server: \<open>JSON.stringify(v, null, 2)\<close>, the runtime's number
  formatting, and the HTTP adapter, which answers a request with a response or raises.
  The \<open>data\<close> of a response is the decoded body, or the body's text when it is not JSON
  (the empty string for an empty body); \<open>JSON.stringify\<close> gives a string for each of them.
\<close>

record env =
  JSON_stringify :: "jsval \<Rightarrow> string"
  Number_toString :: "rat \<Rightarrow> string"
  axios :: "http_request \<Rightarrow> exn + axios_response"

text \<open>The requests made so far, oldest first: what a recording adapter double sees.\<close>

type_synonym world = "http_request list"

definition axios_request ::
  "env \<Rightarrow> http_request \<Rightarrow> world \<Rightarrow> (exn + axios_response) \<times> world" where
  "axios_request e rq w = (axios e rq, w @ [rq])"

record TextContent =
  c_type :: string
  c_text :: string

record CallResult =
  content :: "TextContent list"

definition text_result :: "string \<Rightarrow> CallResult" where
  "text_result t = \<lparr>content = [\<lparr>c_type = ''text'', c_text = t\<rparr>]\<rparr>"

text \<open>
  The settled state of the promise an \<open>async\<close> function returns, and the completion of a
  block that runs synchronously.
\<close>

datatype 'a promise = Resolved 'a | Rejected exn

datatype 'a completion = Returned 'a | Thrown exn

section \<open>Validation functions\<close>

text \<open>
  The argument object, \<open>Record<string, unknown>\<close>, is read by property only: it is the
  function from a key to the value \<open>args.key\<close>, \<open>undefined\<close> for a key it does not have.
\<close>

type_synonym raw_args = "string \<Rightarrow> jsval"

definition empty_args :: raw_args where
  "empty_args = (\<lambda>k. JUndefined)"

record WorkflowIdArg =
  wi_id :: jsval

record CreateWorkflowArgs =
  cw_name :: jsval
  cw_nodes :: jsval
  cw_connections :: jsval
  cw_active :: jsval
  cw_tags :: jsval
  cw_settings :: jsval

record UpdateWorkflowArgs =
  uw_id :: jsval
  uw_name :: jsval
  uw_nodes :: jsval
  uw_connections :: jsval
  uw_active :: jsval
  uw_tags :: jsval

record ExecuteWorkflowArgs =
  ew_id :: jsval
  ew_data :: jsval

definition id_required :: string where
  "id_required = ''Workflow ID is required and must be a string''"

definition name_required :: string where
  "name_required = ''Workflow name is required and must be a string''"

definition validateWorkflowId :: "raw_args \<Rightarrow> exn + WorkflowIdArg" where
  "validateWorkflowId args =
     (if \<not> truthy (args ''id'') \<or> typeof (args ''id'') \<noteq> T_string
      then Inl (McpError InvalidParams id_required)
      else Inr \<lparr>wi_id = args ''id''\<rparr>)"

definition validateCreateWorkflow :: "raw_args \<Rightarrow> exn + CreateWorkflowArgs" where
  "validateCreateWorkflow args =
     (if \<not> truthy (args ''name'') \<or> typeof (args ''name'') \<noteq> T_string
      then Inl (McpError InvalidParams name_required)
      else Inr
        \<lparr>cw_name = args ''name'',
         cw_nodes = (if isArray (args ''nodes'') then args ''nodes'' else JArr []),
         cw_connections =
           (if typeof (args ''connections'') = T_object then args ''connections'' else JObj []),
         cw_active = (if typeof (args ''active'') = T_boolean then args ''active'' else JBool False),
         cw_tags = (if isArray (args ''tags'') then args ''tags'' else JArr []),
         cw_settings =
           (if typeof (args ''settings'') = T_object \<and> args ''settings'' \<noteq> JNull
            then args ''settings''
            else JObj [(''executionOrder'', JStr ''v1'')])\<rparr>)"

definition validateUpdateWorkflow :: "raw_args \<Rightarrow> exn + UpdateWorkflowArgs" where
  "validateUpdateWorkflow args =
     (if \<not> truthy (args ''id'') \<or> typeof (args ''id'') \<noteq> T_string
      then Inl (McpError InvalidParams id_required)
      else Inr
        \<lparr>uw_id = args ''id'',
         uw_name = (if typeof (args ''name'') = T_string then args ''name'' else JUndefined),
         uw_nodes = (if isArray (args ''nodes'') then args ''nodes'' else JUndefined),
         uw_connections =
           (if typeof (args ''connections'') = T_object then args ''connections'' else JUndefined),
         uw_active = (if typeof (args ''active'') = T_boolean then args ''active'' else JUndefined),
         uw_tags = (if isArray (args ''tags'') then args ''tags'' else JUndefined)\<rparr>)"

definition validateExecuteWorkflow :: "raw_args \<Rightarrow> exn + ExecuteWorkflowArgs" where
  "validateExecuteWorkflow args =
     (if \<not> truthy (args ''id'') \<or> typeof (args ''id'') \<noteq> T_string
      then Inl (McpError InvalidParams id_required)
      else Inr
        \<lparr>ew_id = args ''id'',
         ew_data = (if typeof (args ''data'') = T_object then args ''data'' else JObj [])\<rparr>)"

section \<open>Handlers\<close>

text \<open>
  Each handler is an \<open>async\<close> method: it returns a promise, and whatever it throws, before
  or after its \<open>await\<close>, rejects that promise. Its own \<open>catch\<close> logs and rethrows the same
  error. Logging to the console is left out. A template literal \<open>${args.id}\<close> converts
  the id to a string, once for the log line and again for the path; the conversion is
  written once, and where it raises the promise is rejected before any request.
\<close>

definition html_notice :: string where
  "html_notice =
     ''Error: Received HTML instead of JSON. Please check that N8N_API_URL points to the API endpoint (should end with /api/v1)''"

text \<open>
  The \<open>params\<close> object of the list request. \<open>args.tags.join\<close> is not a function unless
  \<open>args.tags\<close> is an array: the call raises a \<open>TypeError\<close>, as does the join of an
  array with an element that has no string form.
\<close>

definition list_params :: "env \<Rightarrow> raw_args \<Rightarrow> exn + (string \<times> jsval) list" where
  "list_params e args =
     (let params = (if args ''active'' \<noteq> JUndefined then [(''active'', args ''active'')] else [])
      in if truthy (args ''tags'')
         then (case args ''tags'' of
                 JArr xs \<Rightarrow>
                   (case array_join (Number_toString e) xs '','' of
                      Inl error \<Rightarrow> Inl error
                    | Inr joined \<Rightarrow> Inr (params @ [(''tags'', JStr joined)]))
               | _ \<Rightarrow> Inl (TypeError ''args.tags.join is not a function''))
         else Inr params)"

definition handleListWorkflows :: "env \<Rightarrow> raw_args \<Rightarrow> world \<Rightarrow> CallResult promise \<times> world" where
  "handleListWorkflows e args w =
     (case list_params e args of
        Inl error \<Rightarrow> (Rejected error, w)
      | Inr params \<Rightarrow>
          (case axios_request e
                  \<lparr>rq_method = GET, rq_url = ''/workflows'',
                   rq_params = Some (JObj params), rq_data = None\<rparr> w of
             (Inl error, w') \<Rightarrow> (Rejected error, w')
           | (Inr response, w') \<Rightarrow>
               (if typeof (data response) = T_string
                   \<and> str_includes (string_of (data response)) ''<!DOCTYPE html>''
                then (Resolved (text_result html_notice), w')
                else (Resolved (text_result (JSON_stringify e (data response))), w'))))"

definition handleGetWorkflow :: "env \<Rightarrow> WorkflowIdArg \<Rightarrow> world \<Rightarrow> CallResult promise \<times> world" where
  "handleGetWorkflow e args w =
     (case js_String (Number_toString e) (wi_id args) of
        Inl error \<Rightarrow> (Rejected error, w)
      | Inr id_text \<Rightarrow>
         (case axios_request e
                 \<lparr>rq_method = GET, rq_url = ''/workflows/'' @ id_text,
                  rq_params = None, rq_data = None\<rparr> w of
           (Inl error, w') \<Rightarrow> (Rejected error, w')
         | (Inr response, w') \<Rightarrow>
             (Resolved (text_result (JSON_stringify e (data response))), w')))"

definition handleCreateWorkflow :: "env \<Rightarrow> CreateWorkflowArgs \<Rightarrow> world \<Rightarrow> CallResult promise \<times> world" where
  "handleCreateWorkflow e args w =
     (let payload = JObj
            [(''name'', cw_name args),
             (''nodes'', js_or (cw_nodes args) (JArr [])),
             (''connections'', js_or (cw_connections args) (JObj [])),
             (''settings'', js_or (cw_settings args) (JObj [(''executionOrder'', JStr ''v1'')]))]
      in case axios_request e
                \<lparr>rq_method = POST, rq_url = ''/workflows'',
                 rq_params = None, rq_data = Some payload\<rparr> w of
           (Inl error, w') \<Rightarrow> (Rejected error, w')
         | (Inr response, w') \<Rightarrow> (Resolved (text_result (JSON_stringify e (data response))), w'))"

text \<open>\<open>const { id, ...data } = args\<close>: the other five properties, in the order the validator wrote them.\<close>

definition update_rest :: "UpdateWorkflowArgs \<Rightarrow> jsval" where
  "update_rest args = JObj
     [(''name'', uw_name args),
      (''nodes'', uw_nodes args),
      (''connections'', uw_connections args),
      (''active'', uw_active args),
      (''tags'', uw_tags args)]"

definition handleUpdateWorkflow :: "env \<Rightarrow> UpdateWorkflowArgs \<Rightarrow> world \<Rightarrow> CallResult promise \<times> world" where
  "handleUpdateWorkflow e args w =
     (let id = uw_id args; rest = update_rest args
      in case js_String (Number_toString e) id of
           Inl error \<Rightarrow> (Rejected error, w)
         | Inr id_text \<Rightarrow>
            (case axios_request e
                    \<lparr>rq_method = PATCH, rq_url = ''/workflows/'' @ id_text,
                     rq_params = None, rq_data = Some rest\<rparr> w of
               (Inl error, w') \<Rightarrow> (Rejected error, w')
             | (Inr response, w') \<Rightarrow>
                 (Resolved (text_result (JSON_stringify e (data response))), w')))"

definition handleDeleteWorkflow :: "env \<Rightarrow> WorkflowIdArg \<Rightarrow> world \<Rightarrow> CallResult promise \<times> world" where
  "handleDeleteWorkflow e args w =
     (case js_String (Number_toString e) (wi_id args) of
        Inl error \<Rightarrow> (Rejected error, w)
      | Inr id_text \<Rightarrow>
         (case axios_request e
                 \<lparr>rq_method = DELETE, rq_url = ''/workflows/'' @ id_text,
                  rq_params = None, rq_data = None\<rparr> w of
            (Inl error, w') \<Rightarrow> (Rejected error, w')
          | (Inr response, w') \<Rightarrow>
              (Resolved (text_result
                 (if truthy (data response) then JSON_stringify e (data response)
                  else ''Workflow '' @ id_text @ '' deleted successfully'')), w')))"

definition handleActivateWorkflow :: "env \<Rightarrow> WorkflowIdArg \<Rightarrow> world \<Rightarrow> CallResult promise \<times> world" where
  "handleActivateWorkflow e args w =
     (case js_String (Number_toString e) (wi_id args) of
        Inl error \<Rightarrow> (Rejected error, w)
      | Inr id_text \<Rightarrow>
         (case axios_request e
                 \<lparr>rq_method = POST, rq_url = ''/workflows/'' @ id_text @ ''/activate'',
                  rq_params = None, rq_data = None\<rparr> w of
           (Inl error, w') \<Rightarrow> (Rejected error, w')
         | (Inr response, w') \<Rightarrow>
             (Resolved (text_result (JSON_stringify e (data response))), w')))"

definition handleDeactivateWorkflow :: "env \<Rightarrow> WorkflowIdArg \<Rightarrow> world \<Rightarrow> CallResult promise \<times> world" where
  "handleDeactivateWorkflow e args w =
     (case js_String (Number_toString e) (wi_id args) of
        Inl error \<Rightarrow> (Rejected error, w)
      | Inr id_text \<Rightarrow>
         (case axios_request e
                 \<lparr>rq_method = POST, rq_url = ''/workflows/'' @ id_text @ ''/deactivate'',
                  rq_params = None, rq_data = None\<rparr> w of
           (Inl error, w') \<Rightarrow> (Rejected error, w')
         | (Inr response, w') \<Rightarrow>
             (Resolved (text_result (JSON_stringify e (data response))), w')))"

definition handleExecuteWorkflow :: "env \<Rightarrow> ExecuteWorkflowArgs \<Rightarrow> world \<Rightarrow> CallResult promise \<times> world" where
  "handleExecuteWorkflow e args w =
     (case js_String (Number_toString e) (ew_id args) of
        Inl error \<Rightarrow> (Rejected error, w)
      | Inr id_text \<Rightarrow>
         (case axios_request e
                 \<lparr>rq_method = POST, rq_url = ''/workflows/'' @ id_text @ ''/execute'',
                  rq_params = None, rq_data = Some (js_or (ew_data args) (JObj []))\<rparr> w of
           (Inl error, w') \<Rightarrow> (Rejected error, w')
         | (Inr response, w') \<Rightarrow>
             (Resolved (text_result (JSON_stringify e (data response))), w')))"

section \<open>The tool dispatcher\<close>

text \<open>The names of the eight tools the \<open>ListTools\<close> handler announces, in its order.\<close>

definition tool_names :: "string list" where
  "tool_names =
     [''list_workflows'', ''get_workflow'', ''create_workflow'', ''update_workflow'',
      ''delete_workflow'', ''activate_workflow'', ''deactivate_workflow'', ''execute_workflow'']"

text \<open>
  Running a validator and handing its record to a handler, as in
  \<open>return this.handleX(validateX(args))\<close>: the validator may throw; otherwise the
  statement returns the promise the handler made, without awaiting it.
\<close>

definition return_call ::
  "(exn + 'a) \<Rightarrow> ('a \<Rightarrow> world \<Rightarrow> CallResult promise \<times> world) \<Rightarrow> world
     \<Rightarrow> (CallResult promise) completion \<times> world" where
  "return_call validated handler w =
     (case validated of
        Inl error \<Rightarrow> (Thrown error, w)
      | Inr args \<Rightarrow> (case handler args w of (p, w') \<Rightarrow> (Returned p, w')))"

text \<open>The \<open>switch\<close> inside the \<open>try\<close> block.\<close>

definition try_block ::
  "env \<Rightarrow> string \<Rightarrow> raw_args \<Rightarrow> world \<Rightarrow> (CallResult promise) completion \<times> world" where
  "try_block e name args w =
     (if name = ''list_workflows'' then return_call (Inr args) (handleListWorkflows e) w
      else if name = ''get_workflow'' then
        return_call (validateWorkflowId args) (handleGetWorkflow e) w
      else if name = ''create_workflow'' then
        return_call (validateCreateWorkflow args) (handleCreateWorkflow e) w
      else if name = ''update_workflow'' then
        return_call (validateUpdateWorkflow args) (handleUpdateWorkflow e) w
      else if name = ''delete_workflow'' then
        return_call (validateWorkflowId args) (handleDeleteWorkflow e) w
      else if name = ''activate_workflow'' then
        return_call (validateWorkflowId args) (handleActivateWorkflow e) w
      else if name = ''deactivate_workflow'' then
        return_call (validateWorkflowId args) (handleDeactivateWorkflow e) w
      else if name = ''execute_workflow'' then
        return_call (validateExecuteWorkflow args) (handleExecuteWorkflow e) w
      else (Thrown (McpError MethodNotFound (''Unknown tool: '' @ name)), w))"

text \<open>
  The \<open>catch\<close> clause of the dispatcher: what it throws for the error it caught.
  \<open>error.response?.data?.message || error.message\<close> picks the body's \<open>message\<close> when it
  is truthy.
\<close>

definition catch_clause :: "env \<Rightarrow> exn \<Rightarrow> exn" where
  "catch_clause e error =
     (case error of
        AxiosError error_message response \<Rightarrow>
          (let m = (case response of
                      None \<Rightarrow> JUndefined
                    | Some r \<Rightarrow> opt_prop (data r) ''message'');
               message = (if truthy m then m else JStr error_message)
           in case js_String (Number_toString e) message of
                Inl type_error \<Rightarrow> type_error
              | Inr message_text \<Rightarrow> McpError InternalError (''n8n API error: '' @ message_text))
      | _ \<Rightarrow> error)"

text \<open>\<open>request.params.arguments || {}\<close>: a request without arguments has the empty object.\<close>

definition arguments_or_empty :: "raw_args option \<Rightarrow> raw_args" where
  "arguments_or_empty arguments = (case arguments of None \<Rightarrow> empty_args | Some a \<Rightarrow> a)"

text \<open>
  The handler registered for \<open>CallToolRequestSchema\<close>, an \<open>async\<close> function of the tool
  name and the optional arguments. A \<open>throw\<close> inside the \<open>try\<close> block goes through the
  \<open>catch\<close> clause and rejects the call. A \<open>return\<close> of a handler's promise leaves the
  \<open>try\<close> statement at once: the call settles as that promise does, and a later
  rejection of it never enters the \<open>catch\<close> clause.
\<close>

definition CallTool ::
  "env \<Rightarrow> string \<Rightarrow> raw_args option \<Rightarrow> world \<Rightarrow> CallResult promise \<times> world" where
  "CallTool e name arguments w =
     (let args = arguments_or_empty arguments
      in case try_block e name args w of
           (Returned p, w') \<Rightarrow> (p, w')
         | (Thrown error, w') \<Rightarrow> (Rejected (catch_clause e error), w'))"

text \<open>
  An adapter double that gives every request the same reply; its \<open>JSON.stringify\<close> and
  number formatting return fixed marks.
\<close>

definition adapter_double :: "exn + axios_response \<Rightarrow> env" where
  "adapter_double reply =
     \<lparr>JSON_stringify = (\<lambda>v. ''<json>''),
      Number_toString = (\<lambda>r. ''<number>''),
      axios = (\<lambda>rq. reply)\<rparr>"

section \<open>Evaluation rules\<close>

lemmas dispatcher_defs = CallTool_def try_block_def return_call_def arguments_or_empty_def
  empty_args_def axios_request_def text_result_def Let_def

lemmas validator_defs = validateWorkflowId_def validateCreateWorkflow_def
  validateUpdateWorkflow_def validateExecuteWorkflow_def id_required_def name_required_def

lemmas handler_defs = handleListWorkflows_def handleGetWorkflow_def handleCreateWorkflow_def
  handleUpdateWorkflow_def handleDeleteWorkflow_def handleActivateWorkflow_def
  handleDeactivateWorkflow_def handleExecuteWorkflow_def

text \<open>\<open>str_includes\<close> decides the library's contiguous-sublist relation.\<close>

lemma str_includes_sublist: "str_includes s pat \<longleftrightarrow> sublist pat s"
  by (induction s) (auto simp: sublist_Cons_right)

lemma html_notice_no_marker: "\<not> str_includes html_notice ''<!DOCTYPE html>''"
  by (simp add: html_notice_def)

text \<open>The falsy values are \<open>undefined\<close>, \<open>null\<close>, \<open>false\<close>, \<open>0\<close> and the empty string.\<close>

lemma falsy_iff: "\<not> truthy v \<longleftrightarrow> v \<in> {JUndefined, JNull, JBool False, JNum 0, JStr []}"
  by (cases v) auto

lemma typeof_string_iff: "typeof v = T_string \<longleftrightarrow> (\<exists>s. v = JStr s)"
  by (cases v) simp_all

lemma typeof_object_iff:
  "typeof v = T_object \<longleftrightarrow> v = JNull \<or> (\<exists>xs. v = JArr xs) \<or> (\<exists>kvs. v = JObj kvs)"
  by (cases v) simp_all

text \<open>Joining an array of strings never raises and is joining the strings.\<close>

lemma array_join_strings: "array_join nts (map JStr ts) sep = Inr (join_strings sep ts)"
  unfolding array_join_def
  by (induction sep ts rule: join_strings.induct) simp_all

text \<open>A string conversion raises nothing but a \<open>TypeError\<close>.\<close>

lemma js_String_raises_TypeError:
  "js_String nts v = Inl err \<Longrightarrow> \<exists>m. err = TypeError m"
  "js_join nts sep xs = Inl err \<Longrightarrow> \<exists>m. err = TypeError m"
  by (induction nts v and nts sep xs rule: js_String_js_join.induct)
     (auto split: if_splits sum.splits)

section \<open>Creating a workflow\<close>

text \<open>
  Claim C1. A create call whose arguments carry a string \<open>name\<close> and none of \<open>nodes\<close>,
  \<open>connections\<close>, \<open>settings\<close> (whatever \<open>active\<close>, \<open>tags\<close> and other properties it carries)
  sends one request, \<open>POST /workflows\<close>, whose body has exactly the properties \<open>name\<close>,
  \<open>nodes: []\<close>, \<open>connections: {}\<close> and \<open>settings: {executionOrder: "v1"}\<close>, hence no
  \<open>active\<close> and no \<open>tags\<close>. With the empty name the validator throws and nothing is sent,
  so no request with another body exists.
\<close>

theorem create_payload_keys:
  assumes "args ''name'' = JStr n" and "args ''nodes'' = JUndefined"
    and "args ''connections'' = JUndefined" and "args ''settings'' = JUndefined"
  shows "snd (CallTool e ''create_workflow'' (Some args) w) =
           (if n = [] then w
            else w @ [\<lparr>rq_method = POST, rq_url = ''/workflows'', rq_params = None,
                       rq_data = Some (JObj [(''name'', JStr n), (''nodes'', JArr []),
                                             (''connections'', JObj []),
                                             (''settings'', JObj [(''executionOrder'', JStr ''v1'')])])\<rparr>])"
  using assms
  by (auto simp: dispatcher_defs validateCreateWorkflow_def handleCreateWorkflow_def js_or_def
      split: sum.splits prod.splits)

theorem create_payload_keys_witness:
  "(empty_args(''name'' := JStr ''wf'', ''tags'' := JArr [JStr ''x''],
       ''active'' := JBool True)) ''name'' = JStr ''wf''
   \<and> snd (CallTool (adapter_double (Inr \<lparr>status = 200, data = JNull\<rparr>)) ''create_workflow''
        (Some (empty_args(''name'' := JStr ''wf'', ''tags'' := JArr [JStr ''x''],
                 ''active'' := JBool True))) [])
     = [\<lparr>rq_method = POST, rq_url = ''/workflows'', rq_params = None,
           rq_data = Some (JObj [(''name'', JStr ''wf''), (''nodes'', JArr []),
                                 (''connections'', JObj []),
                                 (''settings'', JObj [(''executionOrder'', JStr ''v1'')])])\<rparr>]"
  using create_payload_keys
    [of "empty_args(''name'' := JStr ''wf'', ''tags'' := JArr [JStr ''x''],
            ''active'' := JBool True)" "''wf''"
        "adapter_double (Inr \<lparr>status = 200, data = JNull\<rparr>)" "[]"]
  by (simp add: empty_args_def)

text \<open>
  The validator does accept and default \<open>active\<close> and \<open>tags\<close>; it is the handler that
  leaves them out of the payload.
\<close>

lemma create_validator_keeps_active_tags:
  "validateCreateWorkflow
     (empty_args(''name'' := JStr ''wf'', ''tags'' := JArr [JStr ''x''], ''active'' := JBool True))
   = Inr \<lparr>cw_name = JStr ''wf'', cw_nodes = JArr [], cw_connections = JObj [],
          cw_active = JBool True, cw_tags = JArr [JStr ''x''],
          cw_settings = JObj [(''executionOrder'', JStr ''v1'')]\<rparr>"
  by (simp add: validateCreateWorkflow_def empty_args_def)

section \<open>Updating a workflow\<close>

text \<open>
  The example of the specification holds: an update with only \<open>id: "5"\<close> and
  \<open>name: "renamed"\<close> sends \<open>PATCH /workflows/5\<close>, and the body on the wire is exactly
  \<open>{name: "renamed"}\<close>: the four \<open>undefined\<close> properties are not serialised.
\<close>

lemma update_rename_only:
  "map rq_method (snd (CallTool e ''update_workflow''
        (Some (empty_args(''id'' := JStr ''5'', ''name'' := JStr ''renamed''))) [])) = [PATCH]
   \<and> map rq_url (snd (CallTool e ''update_workflow''
        (Some (empty_args(''id'' := JStr ''5'', ''name'' := JStr ''renamed''))) []))
       = [''/workflows/5'']
   \<and> map (map_option JSON_body \<circ> rq_data) (snd (CallTool e ''update_workflow''
        (Some (empty_args(''id'' := JStr ''5'', ''name'' := JStr ''renamed''))) []))
       = [Some (JObj [(''name'', JStr ''renamed'')])]"
  by (simp add: dispatcher_defs validator_defs handleUpdateWorkflow_def update_rest_def
      split: sum.splits)

text \<open>
  Claim C2 says that an optional field of an update that is \<open>null\<close> becomes absent and is
  never sent as \<open>null\<close>. The validator tests \<open>connections\<close> with
  \<open>typeof args.connections === 'object'\<close> alone, which \<open>null\<close> passes (the test of
  \<open>settings\<close> in \<open>validateCreateWorkflow\<close> adds \<open>!== null\<close>, and the create handler
  replaces a falsy \<open>connections\<close>); the update handler forwards the field as it is. An
  update with \<open>id: "5"\<close> and \<open>connections: null\<close> puts \<open>{"connections": null}\<close> on the wire.
\<close>

theorem update_sends_null_connections:
  "map (map_option JSON_body \<circ> rq_data)
     (snd (CallTool e ''update_workflow''
        (Some (empty_args(''id'' := JStr ''5'', ''connections'' := JNull))) []))
   = [Some (JObj [(''connections'', JNull)])]"
  by (simp add: dispatcher_defs validator_defs handleUpdateWorkflow_def update_rest_def
      split: sum.splits)

section \<open>Listing workflows\<close>

text \<open>
  Claim C3 as stated, that \<open>tags\<close> is a query parameter only when the given tags are
  non-empty, fails: \<open>if (args.tags)\<close> tests truthiness, and the empty array is truthy.
  A list call with \<open>tags: []\<close> sends the parameter \<open>tags\<close> with the empty string.
\<close>

theorem list_empty_tags_sent:
  "snd (CallTool (adapter_double (Inr \<lparr>status = 200, data = JArr []\<rparr>)) ''list_workflows''
        (Some (empty_args(''tags'' := JArr []))) [])
   = [\<lparr>rq_method = GET, rq_url = ''/workflows'',
       rq_params = Some (JObj [(''tags'', JStr [])]), rq_data = None\<rparr>]"
  by (simp add: dispatcher_defs handleListWorkflows_def list_params_def array_join_def
      adapter_double_def)

text \<open>
  An array whose join raises sends nothing: with \<open>tags: [{"toString": 0}]\<close> the element
  has no string form, and the call is rejected with the \<open>TypeError\<close> before any request.
\<close>

lemma list_unjoinable_tags_no_request:
  "CallTool e ''list_workflows''
     (Some (empty_args(''tags'' := JArr [JObj [(''toString'', JNum 0)]]))) w
   = (Rejected (TypeError ''Cannot convert object to primitive value''), w)"
  by (simp add: dispatcher_defs handleListWorkflows_def list_params_def array_join_def)

text \<open>
  Claim C3, amended. For a list call whose \<open>tags\<close> is falsy, or an array that \<open>join\<close>
  converts to a string (as it does every array of strings), one request \<open>GET /workflows\<close>
  is made. The \<open>params\<close> object handed to the HTTP client has no properties but \<open>active\<close>
  and \<open>tags\<close>; it has \<open>active\<close> exactly when the caller gave it, with the value given; it
  has \<open>tags\<close> exactly when the caller gave an array, empty or not, with the joined string
  as its value; for an array of strings that is the strings joined by commas.
\<close>

theorem list_query_params:
  assumes "\<not> truthy (args ''tags'')
           \<or> (\<exists>xs joined. args ''tags'' = JArr xs
                 \<and> array_join (Number_toString e) xs '','' = Inr joined)"
  shows "\<exists>params.
           snd (CallTool e ''list_workflows'' (Some args) w) =
             w @ [\<lparr>rq_method = GET, rq_url = ''/workflows'',
                    rq_params = Some (JObj params), rq_data = None\<rparr>]
         \<and> fst ` set params \<subseteq> {''active'', ''tags''}
         \<and> map_of params ''active'' =
             (if args ''active'' = JUndefined then None else Some (args ''active''))
         \<and> (''tags'' \<in> fst ` set params \<longleftrightarrow> isArray (args ''tags''))
         \<and> (\<forall>xs joined. args ''tags'' = JArr xs
                 \<and> array_join (Number_toString e) xs '','' = Inr joined \<longrightarrow>
                map_of params ''tags'' = Some (JStr joined))
         \<and> (\<forall>ts. args ''tags'' = JArr (map JStr ts) \<longrightarrow>
                map_of params ''tags'' = Some (JStr (join_strings '','' ts)))"
proof (cases "args ''tags''")
  case (JArr xs)
  with assms obtain joined where
    joined: "array_join (Number_toString e) xs '','' = Inr joined"
    by auto
  have strings: "joined = join_strings '','' ts" if "xs = map JStr ts" for ts
    using joined that by (simp add: array_join_strings)
  from JArr joined strings show ?thesis
    by (auto simp: dispatcher_defs handleListWorkflows_def list_params_def
        split: sum.splits prod.splits)
qed (use assms in \<open>auto simp: dispatcher_defs handleListWorkflows_def list_params_def
        split: sum.splits prod.splits\<close>)

theorem list_query_params_witness:
  "(empty_args(''active'' := JBool True, ''tags'' := JArr [JStr ''a'', JStr ''b''])) ''tags''
     = JArr [JStr ''a'', JStr ''b'']
   \<and> array_join (Number_toString (adapter_double (Inr \<lparr>status = 200, data = JArr []\<rparr>)))
        [JStr ''a'', JStr ''b''] '','' = Inr ''a,b''
   \<and> snd (CallTool (adapter_double (Inr \<lparr>status = 200, data = JArr []\<rparr>)) ''list_workflows''
        (Some (empty_args(''active'' := JBool True, ''tags'' := JArr [JStr ''a'', JStr ''b'']))) [])
     = [\<lparr>rq_method = GET, rq_url = ''/workflows'',
         rq_params = Some (JObj [(''active'', JBool True), (''tags'', JStr ''a,b'')]),
         rq_data = None\<rparr>]"
proof -
  let ?args = "empty_args(''active'' := JBool True, ''tags'' := JArr [JStr ''a'', JStr ''b''])"
  let ?e = "adapter_double (Inr \<lparr>status = 200, data = JArr []\<rparr>)"
  have tags: "?args ''tags'' = JArr [JStr ''a'', JStr ''b'']"
    by simp
  have joined: "array_join (Number_toString ?e) [JStr ''a'', JStr ''b''] '','' = Inr ''a,b''"
    by (simp add: array_join_def)
  have h: "\<not> truthy (?args ''tags'')
           \<or> (\<exists>xs joined. ?args ''tags'' = JArr xs
                 \<and> array_join (Number_toString ?e) xs '','' = Inr joined)"
    using tags joined by blast
  from list_query_params [where args = ?args and e = ?e and w = "[]", OF h] obtain params where
    log: "snd (CallTool ?e ''list_workflows'' (Some ?args) []) =
            [\<lparr>rq_method = GET, rq_url = ''/workflows'',
               rq_params = Some (JObj params), rq_data = None\<rparr>]"
    and tagval: "\<forall>xs joined. ?args ''tags'' = JArr xs
                 \<and> array_join (Number_toString ?e) xs '','' = Inr joined \<longrightarrow>
                map_of params ''tags'' = Some (JStr joined)"
    by auto
  from tagval tags joined have "map_of params ''tags'' = Some (JStr ''a,b'')"
    by blast
  moreover have "snd (CallTool ?e ''list_workflows'' (Some ?args) []) =
      [\<lparr>rq_method = GET, rq_url = ''/workflows'',
         rq_params = Some (JObj [(''active'', JBool True), (''tags'', JStr ''a,b'')]),
         rq_data = None\<rparr>]"
    by (simp add: dispatcher_defs handleListWorkflows_def list_params_def array_join_def
        adapter_double_def)
  ultimately show ?thesis using tags joined by blast
qed

text \<open>
  Claim C8. When the list request is answered with a body that is a string containing
  \<open><!DOCTYPE html>\<close>, the result is one text block holding the notice about
  \<open>N8N_API_URL\<close>, which is not the body received; for every other body the result is one
  text block holding \<open>JSON.stringify\<close> of the body. In both cases the call resolves.
\<close>

theorem list_html_guard:
  assumes "list_params e args = Inr params"
    and "axios e \<lparr>rq_method = GET, rq_url = ''/workflows'',
                  rq_params = Some (JObj params), rq_data = None\<rparr> = Inr response"
  shows "fst (CallTool e ''list_workflows'' (Some args) w) =
           Resolved \<lparr>content = [\<lparr>c_type = ''text'',
              c_text = (if \<exists>s. data response = JStr s \<and> sublist ''<!DOCTYPE html>'' s
                        then html_notice else JSON_stringify e (data response))\<rparr>]\<rparr>
         \<and> (\<forall>s. data response = JStr s \<and> sublist ''<!DOCTYPE html>'' s \<longrightarrow> s \<noteq> html_notice)"
proof -
  have guard: "(typeof (data response) = T_string
                 \<and> str_includes (string_of (data response)) ''<!DOCTYPE html>'')
               \<longleftrightarrow> (\<exists>s. data response = JStr s \<and> sublist ''<!DOCTYPE html>'' s)"
    by (cases "data response") (simp_all add: str_includes_sublist)
  have "fst (CallTool e ''list_workflows'' (Some args) w) =
          Resolved (text_result
            (if typeof (data response) = T_string
                 \<and> str_includes (string_of (data response)) ''<!DOCTYPE html>''
             then html_notice else JSON_stringify e (data response)))"
    using assms by (simp add: CallTool_def try_block_def return_call_def arguments_or_empty_def
        axios_request_def handleListWorkflows_def)
  then show ?thesis
    unfolding guard using html_notice_no_marker
    by (auto simp: text_result_def str_includes_sublist)
qed

theorem list_html_guard_witness:
  "list_params (adapter_double (Inr \<lparr>status = 200, data = JStr ''<!DOCTYPE html><html></html>''\<rparr>))
      empty_args = Inr []
   \<and> fst (CallTool (adapter_double (Inr \<lparr>status = 200, data = JStr ''<!DOCTYPE html><html></html>''\<rparr>))
        ''list_workflows'' (Some empty_args) [])
     = Resolved \<lparr>content = [\<lparr>c_type = ''text'', c_text = html_notice\<rparr>]\<rparr>"
proof -
  let ?r = "\<lparr>status = 200, data = JStr ''<!DOCTYPE html><html></html>''\<rparr>"
  let ?e = "adapter_double (Inr ?r)"
  have p: "list_params ?e empty_args = Inr []"
    by (simp add: list_params_def empty_args_def)
  have a: "axios ?e \<lparr>rq_method = GET, rq_url = ''/workflows'',
                     rq_params = Some (JObj []), rq_data = None\<rparr> = Inr ?r"
    by (simp add: adapter_double_def)
  have m: "sublist ''<!DOCTYPE html>'' ''<!DOCTYPE html><html></html>''"
    unfolding str_includes_sublist [symmetric] by simp
  from list_html_guard [where e = ?e and args = empty_args and params = "[]"
      and response = ?r and w = "[]", OF p a] m p show ?thesis
    by simp
qed

section \<open>Executing a workflow\<close>

text \<open>
  Claim C4 as stated, that \<open>data\<close> is replaced by the empty mapping unless it is a mapping
  and not an array, fails: \<open>typeof args.data === 'object'\<close> holds of an array, which no
  validator tells apart from a mapping. An execute call with \<open>data: [1]\<close> keeps the array
  and posts it.
\<close>

theorem execute_keeps_array_data:
  "validateExecuteWorkflow (empty_args(''id'' := JStr ''7'', ''data'' := JArr [JNum 1]))
     = Inr \<lparr>ew_id = JStr ''7'', ew_data = JArr [JNum 1]\<rparr>
   \<and> map rq_data (snd (CallTool (adapter_double (Inr \<lparr>status = 200, data = JNull\<rparr>))
        ''execute_workflow''
        (Some (empty_args(''id'' := JStr ''7'', ''data'' := JArr [JNum 1]))) []))
     = [Some (JArr [JNum 1])]"
  by (simp add: dispatcher_defs validator_defs handleExecuteWorkflow_def js_or_def
      adapter_double_def)

text \<open>
  Claim C4, amended. For an execute call with a non-empty string \<open>id\<close> and a \<open>data\<close> that
  is not \<open>null\<close>, the validator keeps \<open>data\<close> when it is a mapping or an array and sets it
  to the empty mapping when it is absent or a boolean, a number or a string; one request
  \<open>POST /workflows/{id}/execute\<close> is sent, and its body is the validated \<open>data\<close>.
\<close>

theorem execute_data_body:
  assumes "args ''id'' = JStr i" and "i \<noteq> []" and "args ''data'' \<noteq> JNull"
  shows "validateExecuteWorkflow args =
           Inr \<lparr>ew_id = JStr i,
                ew_data = (case args ''data'' of
                             JObj kvs \<Rightarrow> JObj kvs | JArr xs \<Rightarrow> JArr xs | _ \<Rightarrow> JObj [])\<rparr>
         \<and> snd (CallTool e ''execute_workflow'' (Some args) w) =
             w @ [\<lparr>rq_method = POST, rq_url = ''/workflows/'' @ i @ ''/execute'',
                    rq_params = None,
                    rq_data = Some (case args ''data'' of
                             JObj kvs \<Rightarrow> JObj kvs | JArr xs \<Rightarrow> JArr xs | _ \<Rightarrow> JObj [])\<rparr>]"
  using assms
  by (cases "args ''data''")
     (auto simp: dispatcher_defs validator_defs handleExecuteWorkflow_def js_or_def
        split: sum.splits prod.splits)

theorem execute_data_body_witness:
  "(empty_args(''id'' := JStr ''7'', ''data'' := JStr ''text'')) ''id'' = JStr ''7''
   \<and> ''7'' \<noteq> []
   \<and> (empty_args(''id'' := JStr ''7'', ''data'' := JStr ''text'')) ''data'' \<noteq> JNull
   \<and> validateExecuteWorkflow (empty_args(''id'' := JStr ''7'', ''data'' := JStr ''text''))
       = Inr \<lparr>ew_id = JStr ''7'', ew_data = JObj []\<rparr>
   \<and> snd (CallTool (adapter_double (Inr \<lparr>status = 200, data = JNull\<rparr>)) ''execute_workflow''
        (Some (empty_args(''id'' := JStr ''7'', ''data'' := JStr ''text''))) [])
     = [\<lparr>rq_method = POST, rq_url = ''/workflows/7/execute'', rq_params = None,
         rq_data = Some (JObj [])\<rparr>]"
  using execute_data_body
    [of "empty_args(''id'' := JStr ''7'', ''data'' := JStr ''text'')" "''7''"
        "adapter_double (Inr \<lparr>status = 200, data = JNull\<rparr>)" "[]"]
  by simp

section \<open>Deleting a workflow\<close>

text \<open>
  Claim C9. For a delete call with a non-empty string \<open>id\<close> that the adapter answers, the
  result is one text block: \<open>Workflow {id} deleted successfully\<close> when the body is falsy
  (\<open>undefined\<close>, \<open>null\<close>, \<open>false\<close>, \<open>0\<close> or the empty string), and \<open>JSON.stringify\<close> of the
  body otherwise.
\<close>

theorem delete_fallback_text:
  assumes "args ''id'' = JStr i" and "i \<noteq> []"
    and "axios e \<lparr>rq_method = DELETE, rq_url = ''/workflows/'' @ i,
                  rq_params = None, rq_data = None\<rparr> = Inr response"
  shows "fst (CallTool e ''delete_workflow'' (Some args) w) =
           Resolved \<lparr>content = [\<lparr>c_type = ''text'',
              c_text = (if data response \<in> {JUndefined, JNull, JBool False, JNum 0, JStr []}
                        then ''Workflow '' @ i @ '' deleted successfully''
                        else JSON_stringify e (data response))\<rparr>]\<rparr>"
  using assms falsy_iff [of "data response"]
  by (simp add: dispatcher_defs validator_defs handleDeleteWorkflow_def)

theorem delete_fallback_text_witness:
  "(empty_args(''id'' := JStr ''5'')) ''id'' = JStr ''5'' \<and> ''5'' \<noteq> []
   \<and> axios (adapter_double (Inr \<lparr>status = 204, data = JStr []\<rparr>))
        \<lparr>rq_method = DELETE, rq_url = ''/workflows/'' @ ''5'', rq_params = None, rq_data = None\<rparr>
       = Inr \<lparr>status = 204, data = JStr []\<rparr>
   \<and> fst (CallTool (adapter_double (Inr \<lparr>status = 204, data = JStr []\<rparr>)) ''delete_workflow''
        (Some (empty_args(''id'' := JStr ''5''))) [])
     = Resolved \<lparr>content = [\<lparr>c_type = ''text'', c_text = ''Workflow 5 deleted successfully''\<rparr>]\<rparr>"
proof -
  let ?r = "\<lparr>status = 204, data = JStr []\<rparr>"
  let ?e = "adapter_double (Inr ?r)"
  have i: "(empty_args(''id'' := JStr ''5'')) ''id'' = JStr ''5''" and n: "''5'' \<noteq> []"
    by simp_all
  have a: "axios ?e \<lparr>rq_method = DELETE, rq_url = ''/workflows/'' @ ''5'',
                     rq_params = None, rq_data = None\<rparr> = Inr ?r"
    by (simp add: adapter_double_def)
  from delete_fallback_text [where args = "empty_args(''id'' := JStr ''5'')" and i = "''5''"
      and e = ?e and response = ?r and w = "[]", OF i n a] i a show ?thesis
    by simp
qed

section \<open>Errors\<close>

text \<open>
  The \<open>catch\<close> clause would translate the failure of the specification's example, had it
  caught it.
\<close>

lemma catch_clause_example:
  "catch_clause e (AxiosError ''Request failed with status code 500''
        (Some \<lparr>status = 500, data = JObj [(''message'', JStr ''rate limited'')]\<rparr>))
   = McpError InternalError ''n8n API error: rate limited''"
  by (simp add: catch_clause_def)

text \<open>A validator throws nothing but \<open>InvalidParams\<close>.\<close>

lemma validators_throw_InvalidParams:
  "validateWorkflowId args = Inl err \<Longrightarrow> \<exists>m. err = McpError InvalidParams m"
  "validateCreateWorkflow args = Inl err \<Longrightarrow> \<exists>m. err = McpError InvalidParams m"
  "validateUpdateWorkflow args = Inl err \<Longrightarrow> \<exists>m. err = McpError InvalidParams m"
  "validateExecuteWorkflow args = Inl err \<Longrightarrow> \<exists>m. err = McpError InvalidParams m"
  by (auto simp: validator_defs split: if_splits)

text \<open>Only the validators and the \<open>default\<close> branch throw inside the \<open>try\<close> block.\<close>

lemma try_block_throws_McpError:
  assumes "try_block e name args w = (Thrown err, w')"
  shows "\<exists>c m. err = McpError c m \<and> c \<noteq> InternalError"
  using assms
  by (auto simp: try_block_def return_call_def
      split: if_splits sum.splits prod.splits dest: validators_throw_InvalidParams)

text \<open>
  A handler's promise is rejected with a \<open>TypeError\<close> of a string conversion or with the
  very error the adapter raised.
\<close>

lemma handlers_reject_with:
  "handleListWorkflows e args w = (Rejected err, w')
     \<Longrightarrow> (\<exists>m. err = TypeError m) \<or> (\<exists>rq. axios e rq = Inl err)"
  "handleGetWorkflow e ia w = (Rejected err, w')
     \<Longrightarrow> (\<exists>m. err = TypeError m) \<or> (\<exists>rq. axios e rq = Inl err)"
  "handleCreateWorkflow e ca w = (Rejected err, w')
     \<Longrightarrow> (\<exists>m. err = TypeError m) \<or> (\<exists>rq. axios e rq = Inl err)"
  "handleUpdateWorkflow e ua w = (Rejected err, w')
     \<Longrightarrow> (\<exists>m. err = TypeError m) \<or> (\<exists>rq. axios e rq = Inl err)"
  "handleDeleteWorkflow e ia w = (Rejected err, w')
     \<Longrightarrow> (\<exists>m. err = TypeError m) \<or> (\<exists>rq. axios e rq = Inl err)"
  "handleActivateWorkflow e ia w = (Rejected err, w')
     \<Longrightarrow> (\<exists>m. err = TypeError m) \<or> (\<exists>rq. axios e rq = Inl err)"
  "handleDeactivateWorkflow e ia w = (Rejected err, w')
     \<Longrightarrow> (\<exists>m. err = TypeError m) \<or> (\<exists>rq. axios e rq = Inl err)"
  "handleExecuteWorkflow e ea w = (Rejected err, w')
     \<Longrightarrow> (\<exists>m. err = TypeError m) \<or> (\<exists>rq. axios e rq = Inl err)"
  by (auto simp: handler_defs list_params_def array_join_def axios_request_def Let_def
      split: if_splits sum.splits jsval.splits
      dest: js_String_raises_TypeError)

text \<open>
  So a rejected call carries a validator's or the \<open>default\<close> branch's error, a
  \<open>TypeError\<close>, or the very error the adapter raised.
\<close>

lemma CallTool_rejection_sources:
  assumes "fst (CallTool e name arguments w) = Rejected err"
  shows "(\<exists>c m. err = McpError c m \<and> c \<noteq> InternalError)
       \<or> (\<exists>m. err = TypeError m) \<or> (\<exists>rq. axios e rq = Inl err)"
proof (cases "try_block e name (arguments_or_empty arguments) w")
  case (Pair c w')
  show ?thesis
  proof (cases c)
    case (Thrown thrown)
    with Pair obtain code m where "thrown = McpError code m" and "code \<noteq> InternalError"
      using try_block_throws_McpError by blast
    with Pair Thrown assms show ?thesis
      by (auto simp: CallTool_def catch_clause_def)
  next
    case (Returned p)
    with Pair assms have p: "p = Rejected err"
      by (simp add: CallTool_def)
    from Pair Returned p have "(\<exists>m. err = TypeError m) \<or> (\<exists>rq. axios e rq = Inl err)"
      by (auto simp: try_block_def return_call_def
          split: if_splits sum.splits prod.splits dest: handlers_reject_with)
    then show ?thesis by blast
  qed
qed

text \<open>
  Claim C5 says that an error raised by the adapter is caught by the dispatcher and
  rethrown as \<open>InternalError\<close> with the message \<open>n8n API error: {message}\<close>. The dispatcher
  has the \<open>catch\<close> clause for it, but every branch of the \<open>switch\<close> returns the handler's
  promise without \<open>await\<close>, so the rejection settles the call after the \<open>try\<close> statement
  was left. A get call whose request fails with status 500 and body
  \<open>{message: "rate limited"}\<close> is rejected with the \<open>AxiosError\<close> itself.
\<close>

theorem axios_error_not_translated:
  "fst (CallTool
     (adapter_double (Inl (AxiosError ''Request failed with status code 500''
        (Some \<lparr>status = 500, data = JObj [(''message'', JStr ''rate limited'')]\<rparr>))))
     ''get_workflow'' (Some (empty_args(''id'' := JStr ''1''))) [])
   = Rejected (AxiosError ''Request failed with status code 500''
        (Some \<lparr>status = 500, data = JObj [(''message'', JStr ''rate limited'')]\<rparr>))"
  by (simp add: dispatcher_defs validator_defs handleGetWorkflow_def adapter_double_def)

text \<open>
  Claim C6. A call of get, update, delete, activate, deactivate or execute whose \<open>id\<close> is
  missing or not a string is rejected with \<open>InvalidParams\<close> and the message
  \<open>Workflow ID is required and must be a string\<close>, and the adapter is not called: the
  recorded requests are those from before the call.
\<close>

theorem id_required_no_request:
  assumes "name \<in> {''get_workflow'', ''update_workflow'', ''delete_workflow'',
                    ''activate_workflow'', ''deactivate_workflow'', ''execute_workflow''}"
    and "typeof (arguments_or_empty arguments ''id'') \<noteq> T_string"
  shows "CallTool e name arguments w =
           (Rejected (McpError InvalidParams ''Workflow ID is required and must be a string''), w)"
  using assms
  by (auto simp: CallTool_def try_block_def return_call_def validator_defs catch_clause_def)

theorem id_required_no_request_witness:
  "''update_workflow'' \<in> {''get_workflow'', ''update_workflow'', ''delete_workflow'',
                    ''activate_workflow'', ''deactivate_workflow'', ''execute_workflow''}
   \<and> typeof (arguments_or_empty (Some (empty_args(''id'' := JNum 5, ''name'' := JStr ''n''))) ''id'')
       \<noteq> T_string
   \<and> CallTool (adapter_double (Inr \<lparr>status = 200, data = JNull\<rparr>)) ''update_workflow''
       (Some (empty_args(''id'' := JNum 5, ''name'' := JStr ''n''))) []
     = (Rejected (McpError InvalidParams ''Workflow ID is required and must be a string''), [])"
  using id_required_no_request
    [of "''update_workflow''" "Some (empty_args(''id'' := JNum 5, ''name'' := JStr ''n''))"
        "adapter_double (Inr \<lparr>status = 200, data = JNull\<rparr>)" "[]"]
  by (simp add: arguments_or_empty_def)

text \<open>
  Claim C7. A call whose name is none of the eight tool names is rejected with
  \<open>MethodNotFound\<close> and the message \<open>Unknown tool: \<close> followed by the name, and the adapter
  is not called.
\<close>

theorem unknown_tool:
  assumes "name \<notin> set tool_names"
  shows "CallTool e name arguments w =
           (Rejected (McpError MethodNotFound (''Unknown tool: '' @ name)), w)"
  using assms
  by (simp add: dispatcher_defs tool_names_def catch_clause_def)

theorem unknown_tool_witness:
  "''run_workflow'' \<notin> set tool_names
   \<and> CallTool (adapter_double (Inr \<lparr>status = 200, data = JNull\<rparr>)) ''run_workflow''
       (Some (empty_args(''id'' := JStr ''1''))) []
     = (Rejected (McpError MethodNotFound ''Unknown tool: run_workflow''), [])"
proof -
  have h: "''run_workflow'' \<notin> set tool_names"
    by (simp add: tool_names_def)
  from unknown_tool [OF h] h show ?thesis
    by simp
qed

text \<open>
  Claim C10. The required fields are tested for truthiness as well as for their type: a
  call of get, update, delete, activate, deactivate or execute with \<open>id\<close> the empty
  string, and a create call with \<open>name\<close> the empty string, are rejected with
  \<open>InvalidParams\<close>, and nothing is sent.
\<close>

theorem empty_string_rejected:
  "(name \<in> {''get_workflow'', ''update_workflow'', ''delete_workflow'',
            ''activate_workflow'', ''deactivate_workflow'', ''execute_workflow''}
      \<and> args ''id'' = JStr [] \<longrightarrow>
    CallTool e name (Some args) w =
      (Rejected (McpError InvalidParams ''Workflow ID is required and must be a string''), w))
   \<and> (args ''name'' = JStr [] \<longrightarrow>
    CallTool e ''create_workflow'' (Some args) w =
      (Rejected (McpError InvalidParams ''Workflow name is required and must be a string''), w))"
  by (auto simp: CallTool_def try_block_def return_call_def validator_defs catch_clause_def
      arguments_or_empty_def)

theorem empty_string_rejected_witness:
  "CallTool (adapter_double (Inr \<lparr>status = 200, data = JNull\<rparr>)) ''execute_workflow''
       (Some (empty_args(''id'' := JStr [], ''name'' := JStr []))) []
     = (Rejected (McpError InvalidParams ''Workflow ID is required and must be a string''), [])
   \<and> CallTool (adapter_double (Inr \<lparr>status = 200, data = JNull\<rparr>)) ''create_workflow''
       (Some (empty_args(''id'' := JStr [], ''name'' := JStr []))) []
     = (Rejected (McpError InvalidParams ''Workflow name is required and must be a string''), [])"
  using empty_string_rejected
    [of "''execute_workflow''" "empty_args(''id'' := JStr [], ''name'' := JStr [])"
        "adapter_double (Inr \<lparr>status = 200, data = JNull\<rparr>)" "[]"]
  by simp

end
